theory Spec2Isabelle
  imports Main
begin

section \<open>The rule engine of \<open>AbstractGame.ts\<close>\<close>

text \<open>
  The class \<open>AbstractGame\<close> keeps a grid of piece encodings and four scalar fields, and
  offers \<open>toString\<close>, \<open>getNextPlayer\<close>, \<open>makeMove\<close>, \<open>recallMove\<close> and \<open>validateMove\<close>.
  The model below follows the TypeScript statement by statement.

  JavaScript values that occur:
  \<^item> a coordinate is a number that is an integer or \<open>NaN\<close> (\<open>parseInt\<close> and
    \<open>charCodeAt\<close> return \<open>NaN\<close> on malformed text): \<open>int option\<close>, \<open>None\<close> for \<open>NaN\<close>;
  \<^item> what a property read yields is a stored integer or \<open>undefined\<close>: \<open>int option\<close>,
    \<open>None\<close> for \<open>undefined\<close>. In every expression of the class (\<open>x === 0\<close>,
    \<open>Math.floor(x / 10)\<close>, \<open>x % 10\<close>) \<open>undefined\<close> behaves as \<open>NaN\<close> does;
  \<^item> a row of the grid is a JavaScript array, that is an object whose properties are
    addressed by the coordinate (the keys \<open>"0"\<close>, \<open>"1"\<close>, ..., also \<open>"-1"\<close> and \<open>"NaN"\<close>): a
    function from coordinates to stored values. Reading a key that was never written
    yields \<open>undefined\<close>, writing any key succeeds;
  \<^item> the grid is the outer array, which the class only reads: a function from the
    integer index to the row, \<open>None\<close> where the outer array has no element (also at
    \<open>NaN\<close>). Reading a property of such a missing row raises \<open>TypeError\<close>. The rows come
    from parsed JSON, so no two indices share a row object;
  \<^item> move strings are ASCII text (\<open>string\<close>); case mapping is modelled on the letters
    \<open>a\<close>-\<open>z\<close> only.
\<close>

type_synonym num = "int option"
type_synonym slot = "int option"
type_synonym row = "num \<Rightarrow> slot"
type_synonym grid = "int \<Rightarrow> row option"

record Move =
  sr :: num
  sc :: num
  er :: num
  ec :: num

record game =
  layout :: grid
  currentPlayer :: int
  lastMove :: string
  lastCaptured :: slot
  winner :: int

text \<open>What a method can throw: an \<open>Error\<close>, which is the generic class and carries
  nothing but its message, and the \<open>TypeError\<close> of reading or writing a property of
  \<open>undefined\<close>. No method of the class has a \<open>try\<close> around a call: what is thrown inside
  a method leaves it.\<close>

datatype error = Error string | TypeError

text \<open>The outcome of a method that mutates the object: the exception that left it, if
  any, the lines written with \<open>console.log\<close>, and the object as it is afterwards.\<close>

record outcome =
  thrown :: "error option"
  console :: "string list"
  after :: game

subsection \<open>Numbers\<close>

definition js_gt0 :: "num \<Rightarrow> bool" where
  "js_gt0 x = (case x of None \<Rightarrow> False | Some v \<Rightarrow> 0 < v)"

definition js_mul :: "num \<Rightarrow> num \<Rightarrow> num" where
  "js_mul x y = (case x of None \<Rightarrow> None | Some a \<Rightarrow> (case y of None \<Rightarrow> None | Some b \<Rightarrow> Some (a * b)))"

definition js_minus :: "num \<Rightarrow> int \<Rightarrow> num" where
  "js_minus x k = (case x of None \<Rightarrow> None | Some a \<Rightarrow> Some (a - k))"

definition js_rminus :: "int \<Rightarrow> num \<Rightarrow> num" where
  "js_rminus k x = (case x of None \<Rightarrow> None | Some a \<Rightarrow> Some (k - a))"

text \<open>\<open>a !== b\<close> on numbers: \<open>NaN\<close> differs from everything, itself included.\<close>

definition js_ne :: "num \<Rightarrow> num \<Rightarrow> bool" where
  "js_ne x y = (case x of None \<Rightarrow> True | Some a \<Rightarrow> (case y of None \<Rightarrow> True | Some b \<Rightarrow> a \<noteq> b))"

text \<open>\<open>Math.floor(x / 10)\<close>\<close>

definition team_of :: "slot \<Rightarrow> num" where
  "team_of x = (case x of None \<Rightarrow> None | Some v \<Rightarrow> Some (v div 10))"

subsection \<open>Strings\<close>

definition upper_char :: "char \<Rightarrow> char" where
  "upper_char c = (let n = (of_char c :: nat) in if 97 \<le> n \<and> n \<le> 122 then char_of (n - 32) else c)"

definition toUpperCase :: "string \<Rightarrow> string" where
  "toUpperCase s = map upper_char s"

definition charCodeAt :: "string \<Rightarrow> nat \<Rightarrow> num" where
  "charCodeAt s i = (if i < length s then Some (int (of_char (s ! i))) else None)"

text \<open>\<open>s.substring(a, b)\<close>: both indices are clamped to the length and swapped when
  \<open>a > b\<close>.\<close>

definition substring :: "string \<Rightarrow> nat \<Rightarrow> nat \<Rightarrow> string" where
  "substring s a b =
     (let a' = min a (length s); b' = min b (length s); lo = min a' b'; hi = max a' b'
      in take (hi - lo) (drop lo s))"

text \<open>\<open>parseInt(string)\<close> with no radix, after ECMAScript: leading white space is
  skipped, one sign is read, a prefix \<open>0x\<close> or \<open>0X\<close> selects radix 16, and the longest
  prefix of digits of the radix is the value; with no digit the result is \<open>NaN\<close>.\<close>

definition isWhiteSpace :: "char \<Rightarrow> bool" where
  "isWhiteSpace c = (let n = (of_char c :: nat) in n = 32 \<or> (9 \<le> n \<and> n \<le> 13))"

definition digit_value :: "char \<Rightarrow> nat option" where
  "digit_value c =
     (let n = (of_char c :: nat) in
      if 48 \<le> n \<and> n \<le> 57 then Some (n - 48)
      else if 97 \<le> n \<and> n \<le> 102 then Some (n - 87)
      else if 65 \<le> n \<and> n \<le> 70 then Some (n - 55)
      else None)"

definition is_radix_digit :: "nat \<Rightarrow> char \<Rightarrow> bool" where
  "is_radix_digit radix c = (case digit_value c of None \<Rightarrow> False | Some d \<Rightarrow> d < radix)"

definition digits_value :: "nat \<Rightarrow> string \<Rightarrow> nat" where
  "digits_value radix z =
     foldl (\<lambda>a c. case digit_value c of None \<Rightarrow> a | Some d \<Rightarrow> a * radix + d) 0 z"

definition parseInt :: "string \<Rightarrow> num" where
  "parseInt input =
     (let s = dropWhile isWhiteSpace input;
          neg = (s \<noteq> [] \<and> hd s = CHR ''-'');
          s1 = (if s \<noteq> [] \<and> (hd s = CHR ''+'' \<or> hd s = CHR ''-'') then tl s else s);
          hex = (take 2 s1 = ''0x'' \<or> take 2 s1 = ''0X'');
          radix = (if hex then 16 else 10);
          s2 = (if hex then drop 2 s1 else s1);
          z = takeWhile (is_radix_digit radix) s2
      in if z = [] then None
         else Some ((if neg then - 1 else 1) * int (digits_value radix z)))"

text \<open>Number to string, as string concatenation and a template literal do it, for an
  integer or \<open>NaN\<close>.\<close>

fun string_of_nat :: "nat \<Rightarrow> string" where
  "string_of_nat n =
     (if n < 10 then [char_of (48 + n)]
      else string_of_nat (n div 10) @ [char_of (48 + n mod 10)])"

declare string_of_nat.simps [simp del]

definition string_of_num :: "num \<Rightarrow> string" where
  "string_of_num x =
     (case x of None \<Rightarrow> ''NaN''
      | Some v \<Rightarrow> if v < 0 then CHR ''-'' # string_of_nat (nat (- v)) else string_of_nat (nat v))"

subsection \<open>The grid\<close>

text \<open>\<open>this._layout[r][c]\<close> as a read, and \<open>this._layout[r][c] = v\<close> as a write.\<close>

definition read_cell :: "grid \<Rightarrow> num \<Rightarrow> num \<Rightarrow> error + slot" where
  "read_cell L r c =
     (case r of None \<Rightarrow> Inl TypeError
      | Some i \<Rightarrow> (case L i of None \<Rightarrow> Inl TypeError | Some w \<Rightarrow> Inr (w c)))"

definition write_cell :: "grid \<Rightarrow> num \<Rightarrow> num \<Rightarrow> slot \<Rightarrow> error + grid" where
  "write_cell L r c v =
     (case r of None \<Rightarrow> Inl TypeError
      | Some i \<Rightarrow> (case L i of None \<Rightarrow> Inl TypeError
                   | Some w \<Rightarrow> Inr (L(i := Some (w(c := v))))))"

text \<open>A grid given as a list of rows, as the JSON of a layout preset gives it.\<close>

definition row_of :: "int list \<Rightarrow> row" where
  "row_of xs c =
     (case c of None \<Rightarrow> None
      | Some j \<Rightarrow> if 0 \<le> j \<and> j < int (length xs) then Some (xs ! nat j) else None)"

definition grid_of :: "int list list \<Rightarrow> grid" where
  "grid_of rows i =
     (if 0 \<le> i \<and> i < int (length rows) then Some (row_of (rows ! nat i)) else None)"

subsection \<open>The methods\<close>

definition getNextPlayer :: "game \<Rightarrow> int" where
  "getNextPlayer g = (if currentPlayer g = 2 then 1 else currentPlayer g + 1)"

definition interpretMove :: "string \<Rightarrow> Move" where
  "interpretMove move =
     \<lparr> sr = js_rminus 10 (parseInt (substring move 0 2)),
       sc = js_minus (charCodeAt (toUpperCase move) 2) 65,
       er = js_rminus 10 (parseInt (substring move 3 5)),
       ec = js_minus (charCodeAt (toUpperCase move) 5) 65 \<rparr>"

text \<open>The template literal of the \<open>Error\<close> that \<open>validateMove\<close> throws.\<close>

definition illegalMoveMessage :: "Move \<Rightarrow> string" where
  "illegalMoveMessage move =
     ''Illegal Move: Array Notation ('' @ string_of_num (sr move) @ '', ''
       @ string_of_num (sc move) @ '') to ('' @ string_of_num (er move) @ '', ''
       @ string_of_num (ec move) @ '')''"

text \<open>\<open>x * (x - hi) > 0\<close>, the test of \<open>validateMove\<close> for a coordinate outside \<open>0..hi\<close>.\<close>

definition beyond :: "num \<Rightarrow> int \<Rightarrow> bool" where
  "beyond x hi = js_gt0 (js_mul x (js_minus x hi))"

text \<open>\<open>validateMove\<close> throws, or logs and returns \<open>false\<close>, or returns \<open>true\<close>; nothing is
  logged before a throw. After the two checks the body is a comment and
  \<open>return true\<close>.\<close>

definition validateMove :: "game \<Rightarrow> Move \<Rightarrow> error + (string list \<times> bool)" where
  "validateMove g move =
     (if beyond (sr move) 9 \<or> beyond (er move) 9 \<or> beyond (sc move) 8 \<or> beyond (ec move) 8
      then Inl (Error (illegalMoveMessage move))
      else
        case read_cell (layout g) (sr move) (sc move) of
          Inl e \<Rightarrow> Inl e
        | Inr s \<Rightarrow>
            if js_ne (team_of s) (Some (currentPlayer g))
            then Inr ([''You cannot move this piece.''], False)
            else
              (case read_cell (layout g) (er move) (ec move) of
                 Inl e \<Rightarrow> Inl e
               | Inr d \<Rightarrow>
                   if \<not> ((d = Some 0 \<or> js_ne (team_of d) (Some (currentPlayer g)))
                          \<and> (js_ne (sr move) (er move) \<or> js_ne (sc move) (ec move)))
                   then Inr ([''not accepted''], False)
                   else Inr ([], True)))"

text \<open>The five assignments of an accepted move, in the order of the source.\<close>

definition applyMove :: "game \<Rightarrow> string \<Rightarrow> Move \<Rightarrow> string list \<Rightarrow> outcome" where
  "applyMove g moveStr move out =
     (case read_cell (layout g) (er move) (ec move) of
        Inl e \<Rightarrow> \<lparr> thrown = Some e, console = out, after = g \<rparr>
      | Inr cap \<Rightarrow>
          let g1 = g\<lparr> lastCaptured := cap \<rparr> in
          (case read_cell (layout g1) (sr move) (sc move) of
             Inl e \<Rightarrow> \<lparr> thrown = Some e, console = out, after = g1 \<rparr>
           | Inr pc \<Rightarrow>
               (case write_cell (layout g1) (er move) (ec move) pc of
                  Inl e \<Rightarrow> \<lparr> thrown = Some e, console = out, after = g1 \<rparr>
                | Inr L2 \<Rightarrow>
                    let g2 = g1\<lparr> layout := L2 \<rparr> in
                    (case write_cell (layout g2) (sr move) (sc move) (Some 0) of
                       Inl e \<Rightarrow> \<lparr> thrown = Some e, console = out, after = g2 \<rparr>
                     | Inr L3 \<Rightarrow>
                         let g3 = g2\<lparr> layout := L3 \<rparr>;
                             g4 = g3\<lparr> lastMove := moveStr \<rparr>;
                             g5 = g4\<lparr> currentPlayer := getNextPlayer g4 \<rparr>
                         in \<lparr> thrown = None, console = out, after = g5 \<rparr>))))"

definition makeMove :: "game \<Rightarrow> string \<Rightarrow> outcome" where
  "makeMove g moveStr =
     (let move = interpretMove moveStr in
      case validateMove g move of
        Inl e \<Rightarrow> \<lparr> thrown = Some e, console = [], after = g \<rparr>
      | Inr (out, ok) \<Rightarrow>
          if ok then applyMove g moveStr move out
          else \<lparr> thrown = None, console = out @ [''Move not accepted.''], after = g \<rparr>)"

definition recallMove :: "game \<Rightarrow> outcome" where
  "recallMove g =
     (if lastMove g \<noteq> []
      then
        let move = interpretMove (lastMove g) in
        (case read_cell (layout g) (er move) (ec move) of
           Inl e \<Rightarrow> \<lparr> thrown = Some e, console = [], after = g \<rparr>
         | Inr v \<Rightarrow>
             (case write_cell (layout g) (sr move) (sc move) v of
                Inl e \<Rightarrow> \<lparr> thrown = Some e, console = [], after = g \<rparr>
              | Inr L1 \<Rightarrow>
                  let g1 = g\<lparr> layout := L1 \<rparr> in
                  (case write_cell (layout g1) (er move) (ec move) (lastCaptured g1) of
                     Inl e \<Rightarrow> \<lparr> thrown = Some e, console = [], after = g1 \<rparr>
                   | Inr L2 \<Rightarrow>
                       let g2 = g1\<lparr> layout := L2 \<rparr>;
                           g3 = g2\<lparr> lastCaptured := Some 0 \<rparr>;
                           g4 = g3\<lparr> lastMove := [] \<rparr>;
                           g5 = g4\<lparr> currentPlayer :=
                                  (if currentPlayer g4 = 1 then 2 else currentPlayer g4 - 1) \<rparr>
                       in \<lparr> thrown = None, console = [], after = g5 \<rparr>)))
      else \<lparr> thrown = None, console = [''There is no reverse available.''], after = g \<rparr>)"

text \<open>Whether \<open>makeMove\<close> takes the branch of an accepted move, and a caller that submits
  one move string after the other to the same object, going on after a throw.\<close>

definition accepted :: "game \<Rightarrow> string \<Rightarrow> bool" where
  "accepted g moveStr =
     (case validateMove g (interpretMove moveStr) of Inl e \<Rightarrow> False | Inr (out, ok) \<Rightarrow> ok)"

fun play :: "game \<Rightarrow> string list \<Rightarrow> game" where
  "play g [] = g"
| "play g (s # ss) = play (after (makeMove g s)) ss"

fun accepted_count :: "game \<Rightarrow> string list \<Rightarrow> nat" where
  "accepted_count g [] = 0"
| "accepted_count g (s # ss) =
     (if accepted g s then 1 else 0) + accepted_count (after (makeMove g s)) ss"

subsection \<open>\<open>toString\<close>\<close>

text \<open>\<open>x % k\<close>: the remainder takes the sign of \<open>x\<close>.\<close>

definition js_rem :: "slot \<Rightarrow> int \<Rightarrow> num" where
  "js_rem x k = (case x of None \<Rightarrow> None | Some v \<Rightarrow> Some (sgn v * (\<bar>v\<bar> mod \<bar>k\<bar>)))"

text \<open>\<open>s.charAt(p)\<close>: \<open>NaN\<close> counts as position 0, a position outside the string gives
  the empty string.\<close>

definition charAt :: "string \<Rightarrow> num \<Rightarrow> string" where
  "charAt s p =
     (let k = (case p of None \<Rightarrow> 0 | Some v \<Rightarrow> v)
      in if 0 \<le> k \<and> k < int (length s) then [s ! nat k] else [])"

definition types :: string where
  "types = ''-RNCGEPKS''"

text \<open>The body of the inner loop, from \<open>result += " "\<close> on, as the text it appends.\<close>

definition square_text :: "slot \<Rightarrow> string" where
  "square_text cur =
     (let team = team_of cur; type = js_rem cur 10
      in '' '' @ (if team = Some 0 then ''-'' else string_of_num team) @ charAt types type)"

text \<open>The inner loop over \<open>j\<close> and the outer loop over \<open>i\<close>, each over the list of the
  values its counter takes.\<close>

fun toString_cols :: "grid \<Rightarrow> nat \<Rightarrow> nat list \<Rightarrow> string \<Rightarrow> error + string" where
  "toString_cols L i [] result = Inr result"
| "toString_cols L i (j # js) result =
     (case read_cell L (Some (int i)) (Some (int j)) of
        Inl e \<Rightarrow> Inl e
      | Inr cur \<Rightarrow> toString_cols L i js (result @ square_text cur))"

fun toString_rows :: "grid \<Rightarrow> nat list \<Rightarrow> string \<Rightarrow> error + string" where
  "toString_rows L [] result = Inr result"
| "toString_rows L (i # is) result =
     (case toString_cols L i [0..<9]
             (result @ (if i = 0 then '' '' else '' 0'') @ string_of_num (Some (10 - int i))) of
        Inl e \<Rightarrow> Inl e
      | Inr r \<Rightarrow> toString_rows L is (r @ [CHR 0x0A]))"

definition toString :: "game \<Rightarrow> error + string" where
  "toString g =
     (case toString_rows (layout g) [0..<10] [] of
        Inl e \<Rightarrow> Inl e
      | Inr r \<Rightarrow> Inr (r @ ''     A  B  C  D  E  F  G  H  I'' @ [CHR 0x0A]))"

section \<open>Reference notions\<close>

text \<open>The notions below are not code of the class. They say, independently of it, what
  the properties proved further down are about.\<close>

subsection \<open>Coordinates and squares\<close>

text \<open>A coordinate that is a number within \<open>0..hi\<close>, and one that is a number outside
  it; \<open>NaN\<close> is neither.\<close>

definition inside :: "num \<Rightarrow> int \<Rightarrow> bool" where
  "inside x hi = (case x of None \<Rightarrow> False | Some v \<Rightarrow> 0 \<le> v \<and> v \<le> hi)"

definition outside :: "num \<Rightarrow> int \<Rightarrow> bool" where
  "outside x hi = (case x of None \<Rightarrow> False | Some v \<Rightarrow> v < 0 \<or> hi < v)"

text \<open>A move within rows 0 to 9 and columns 0 to 8, and a move with a coordinate outside
  them.\<close>

definition on_board :: "Move \<Rightarrow> bool" where
  "on_board m = (inside (sr m) 9 \<and> inside (sc m) 8 \<and> inside (er m) 9 \<and> inside (ec m) 8)"

definition off_board :: "Move \<Rightarrow> bool" where
  "off_board m = (outside (sr m) 9 \<or> outside (sc m) 8 \<or> outside (er m) 9 \<or> outside (ec m) 8)"

text \<open>A grid whose outer array has its ten rows.\<close>

definition ten_rows :: "grid \<Rightarrow> bool" where
  "ten_rows L = list_all (\<lambda>i. L (int i) \<noteq> None) [0..<10]"

text \<open>What a square holds, and whether it holds a value of team \<open>p\<close>.\<close>

definition square :: "grid \<Rightarrow> num \<Rightarrow> num \<Rightarrow> slot" where
  "square L r c =
     (case r of None \<Rightarrow> None | Some i \<Rightarrow> (case L i of None \<Rightarrow> None | Some w \<Rightarrow> w c))"

definition team_on :: "grid \<Rightarrow> num \<Rightarrow> num \<Rightarrow> int \<Rightarrow> bool" where
  "team_on L r c p = (case square L r c of None \<Rightarrow> False | Some v \<Rightarrow> v div 10 = p)"


subsection \<open>Move notation\<close>

text \<open>A rank is written with two decimal digits, a file with a letter, \<open>A\<close> being file 0;
  \<open>lower_of\<close> gives the small letter of a capital.\<close>

definition is_digit :: "char \<Rightarrow> bool" where
  "is_digit c = (48 \<le> (of_char c :: nat) \<and> (of_char c :: nat) \<le> 57)"

definition digit_of :: "char \<Rightarrow> int" where
  "digit_of c = int (of_char c) - 48"

definition rank_of :: "char \<Rightarrow> char \<Rightarrow> int" where
  "rank_of a b = 10 * digit_of a + digit_of b"

definition is_upper :: "char \<Rightarrow> bool" where
  "is_upper c = (65 \<le> (of_char c :: nat) \<and> (of_char c :: nat) \<le> 90)"

definition lower_of :: "char \<Rightarrow> char" where
  "lower_of c = char_of ((of_char c :: nat) + 32)"

definition file_of :: "char \<Rightarrow> int" where
  "file_of c = int (of_char c) - 65"

subsection \<open>The board as the dump should show it\<close>

text \<open>The value on a square of the board, 0 where nothing is stored.\<close>

definition piece_at :: "grid \<Rightarrow> int \<Rightarrow> int \<Rightarrow> int" where
  "piece_at L r c =
     (case L r of None \<Rightarrow> 0 | Some w \<Rightarrow> (case w (Some c) of None \<Rightarrow> 0 | Some v \<Rightarrow> v))"

text \<open>A square is rendered as the digit of its team, \<open>-\<close> for team 0, followed by the
  letter of its type, \<open>R N C G E P K S\<close> for the types 1 to 8 and \<open>-\<close> for type 0.\<close>

definition team_mark :: "int \<Rightarrow> char" where
  "team_mark t = (if t = 0 then CHR ''-'' else char_of (48 + nat t))"

definition type_letter :: "int \<Rightarrow> char" where
  "type_letter t =
     (if t = 1 then CHR ''R'' else if t = 2 then CHR ''N'' else if t = 3 then CHR ''C''
      else if t = 4 then CHR ''G'' else if t = 5 then CHR ''E'' else if t = 6 then CHR ''P''
      else if t = 7 then CHR ''K'' else if t = 8 then CHR ''S'' else CHR ''-'')"

definition dump_square :: "int \<Rightarrow> string" where
  "dump_square v = [CHR '' '', team_mark (v div 10), type_letter (v mod 10)]"

text \<open>Row \<open>i\<close> of the grid is rank \<open>10 - i\<close>: its two-digit label, its nine squares, a line
  break.\<close>

definition dump_rank :: "grid \<Rightarrow> nat \<Rightarrow> string" where
  "dump_rank L i =
     (if i = 0 then '' 10'' else [CHR '' '', CHR ''0'', char_of (48 + (10 - i))])
     @ concat (map (\<lambda>j. dump_square (piece_at L (int i) (int j))) [0..<9])
     @ [CHR 0x0A]"

definition dump :: "grid \<Rightarrow> string" where
  "dump L =
     concat (map (dump_rank L) [0..<10]) @ ''     A  B  C  D  E  F  G  H  I'' @ [CHR 0x0A]"

text \<open>A 10 by 9 grid of encodings \<open>team * 10 + type\<close> with a one-digit team and a type
  from 0 to 8.\<close>

definition encoded_square :: "grid \<Rightarrow> nat \<Rightarrow> nat \<Rightarrow> bool" where
  "encoded_square L i j =
     (case L (int i) of None \<Rightarrow> False
      | Some w \<Rightarrow> (case w (Some (int j)) of None \<Rightarrow> False
                   | Some v \<Rightarrow> 0 \<le> v \<and> v div 10 \<le> 9 \<and> v mod 10 \<le> 8))"

definition encoded_grid :: "grid \<Rightarrow> bool" where
  "encoded_grid L = list_all (\<lambda>i. list_all (\<lambda>j. encoded_square L i j) [0..<9]) [0..<10]"

subsection \<open>Lines, screens and the Rook\<close>

text \<open>Modelled from the spec: the class implements no piece rule and no Check Detector
  (the body of \<open>validateMove\<close> ends in a comment that lists the rules, and
  \<open>return true\<close>). The spec counts the pieces strictly between two squares of a row or
  of a column; its Rook moves on a straight line (\<open>dr == 0 xor dc == 0\<close>) with all
  squares between empty; and a player's King is in check when an opposing piece has such
  a path onto the King's square. Only the attack of a Rook is needed below.\<close>

definition pieces_between :: "grid \<Rightarrow> int \<times> int \<Rightarrow> int \<times> int \<Rightarrow> nat" where
  "pieces_between L a b =
     (if fst a = fst b
      then length (filter (\<lambda>c. piece_at L (fst a) c \<noteq> 0) [min (snd a) (snd b) + 1 .. max (snd a) (snd b) - 1])
      else length (filter (\<lambda>r. piece_at L r (snd a) \<noteq> 0) [min (fst a) (fst b) + 1 .. max (fst a) (fst b) - 1]))"



subsection \<open>Positions used as examples\<close>

text \<open>Team 1 has its King on E1, a Rook on E5 and a Cannon on H3; team 2 has its King on
  D10, a Rook on E10 and a Horse on B3. It is team 1 to move, as after construction.\<close>

definition sample_rows :: "int list list" where
  "sample_rows =
     [[0, 0, 0, 27, 21, 0, 0, 0, 0],
      [0, 0, 0, 0, 0, 0, 0, 0, 0],
      [0, 0, 0, 0, 0, 0, 0, 0, 0],
      [0, 0, 0, 0, 0, 0, 0, 0, 0],
      [0, 0, 0, 0, 0, 0, 0, 0, 0],
      [0, 0, 0, 0, 11, 0, 0, 0, 0],
      [0, 0, 0, 0, 0, 0, 0, 0, 0],
      [0, 22, 0, 0, 0, 0, 0, 13, 0],
      [0, 0, 0, 0, 0, 0, 0, 0, 0],
      [0, 0, 0, 0, 17, 0, 0, 0, 0]]"

definition sample_game :: game where
  "sample_game = \<lparr> layout = grid_of sample_rows, currentPlayer = 1, lastMove = [],
                   lastCaptured = Some 0, winner = - 1 \<rparr>"

text \<open>The position after the Cannon has taken the Horse; it is team 2 to move.\<close>

definition sample_game2 :: game where
  "sample_game2 = after (makeMove sample_game ''03h03b'')"

text \<open>The first position with the winner set, as after the end of a game.\<close>

definition finished_game :: game where
  "finished_game = sample_game\<lparr> winner := 2 \<rparr>"

section \<open>Basic facts about the model\<close>

lemma beyond_iff:
  "0 \<le> hi \<Longrightarrow> beyond x hi \<longleftrightarrow> (\<exists>v. x = Some v \<and> (v < 0 \<or> hi < v))"
  by (cases x) (auto simp: beyond_def js_gt0_def js_mul_def js_minus_def zero_less_mult_iff)

lemma read_cell_Inr_iff:
  "read_cell L r c = Inr v \<longleftrightarrow> (\<exists>i w. r = Some i \<and> L i = Some w \<and> v = w c)"
  by (auto simp: read_cell_def split: option.splits)

lemma write_cell_Inr_iff:
  "write_cell L r c v = Inr L' \<longleftrightarrow>
     (\<exists>i w. r = Some i \<and> L i = Some w \<and> L' = L(i := Some (w(c := v))))"
  by (auto simp: write_cell_def split: option.splits)

lemma team_eq_iff:
  "\<not> js_ne (team_of s) (Some p) \<longleftrightarrow> (\<exists>v. s = Some v \<and> v div 10 = p)"
  by (cases s) (auto simp: js_ne_def team_of_def)

lemma validateMove_True_iff:
  "validateMove g m = Inr (out, True) \<longleftrightarrow>
     out = [] \<and>
     \<not> (beyond (sr m) 9 \<or> beyond (er m) 9 \<or> beyond (sc m) 8 \<or> beyond (ec m) 8) \<and>
     (\<exists>s d. read_cell (layout g) (sr m) (sc m) = Inr s \<and>
            read_cell (layout g) (er m) (ec m) = Inr d \<and>
            \<not> js_ne (team_of s) (Some (currentPlayer g)) \<and>
            (d = Some 0 \<or> js_ne (team_of d) (Some (currentPlayer g))) \<and>
            (js_ne (sr m) (er m) \<or> js_ne (sc m) (ec m)))"
  unfolding validateMove_def
  by (auto split: sum.splits)

lemma makeMove_rejected:
  "validateMove g (interpretMove s) = Inr (out, False) \<Longrightarrow>
     makeMove g s = \<lparr> thrown = None, console = out @ [''Move not accepted.''], after = g \<rparr>"
  by (simp add: makeMove_def)

lemma makeMove_threw:
  "validateMove g (interpretMove s) = Inl e \<Longrightarrow>
     makeMove g s = \<lparr> thrown = Some e, console = [], after = g \<rparr>"
  by (simp add: makeMove_def)

text \<open>An accepted move: both rows exist, the start square holds a piece of the current
  player, and the five assignments run without a throw.\<close>

lemma makeMove_accepted:
  assumes "validateMove g (interpretMove s) = Inr (out, True)"
  shows "\<exists>i j wi wj p.
           sr (interpretMove s) = Some i \<and> er (interpretMove s) = Some j \<and>
           layout g i = Some wi \<and> layout g j = Some wj \<and>
           wi (sc (interpretMove s)) = Some p \<and> p div 10 = currentPlayer g \<and>
           (wj (ec (interpretMove s)) = Some 0 \<or>
              js_ne (team_of (wj (ec (interpretMove s)))) (Some (currentPlayer g))) \<and>
           (i \<noteq> j \<or> js_ne (sc (interpretMove s)) (ec (interpretMove s))) \<and>
           makeMove g s =
             \<lparr> thrown = None, console = [],
               after = g\<lparr> layout :=
                          (let L2 = (layout g)(j := Some (wj(ec (interpretMove s) := Some p)))
                           in L2(i := Some ((the (L2 i))(sc (interpretMove s) := Some 0)))),
                        lastCaptured := wj (ec (interpretMove s)),
                        lastMove := s,
                        currentPlayer := getNextPlayer g \<rparr> \<rparr>"
proof -
  let ?m = "interpretMove s"
  from assms obtain sv d where
    out: "out = []" and
    rs: "read_cell (layout g) (sr ?m) (sc ?m) = Inr sv" and
    rd: "read_cell (layout g) (er ?m) (ec ?m) = Inr d" and
    own: "\<not> js_ne (team_of sv) (Some (currentPlayer g))" and
    dst: "d = Some 0 \<or> js_ne (team_of d) (Some (currentPlayer g))" and
    ne: "js_ne (sr ?m) (er ?m) \<or> js_ne (sc ?m) (ec ?m)"
    unfolding validateMove_True_iff by blast
  from rs obtain i wi where i: "sr ?m = Some i" "layout g i = Some wi" "sv = wi (sc ?m)"
    unfolding read_cell_Inr_iff by blast
  from rd obtain j wj where j: "er ?m = Some j" "layout g j = Some wj" "d = wj (ec ?m)"
    unfolding read_cell_Inr_iff by blast
  from own obtain p where p: "sv = Some p" "p div 10 = currentPlayer g"
    unfolding team_eq_iff by blast
  have ne': "i \<noteq> j \<or> js_ne (sc ?m) (ec ?m)"
    using ne i(1) j(1) by (auto simp: js_ne_def)
  have "makeMove g s =
             \<lparr> thrown = None, console = [],
               after = g\<lparr> layout :=
                          (let L2 = (layout g)(j := Some (wj(ec ?m := Some p)))
                           in L2(i := Some ((the (L2 i))(sc ?m := Some 0)))),
                        lastCaptured := wj (ec ?m),
                        lastMove := s,
                        currentPlayer := getNextPlayer g \<rparr> \<rparr>"
    using assms out i j p
    by (simp add: makeMove_def applyMove_def read_cell_def write_cell_def Let_def getNextPlayer_def)
  moreover have "wi (sc ?m) = Some p" using i(3) p(1) by simp
  moreover have "wj (ec ?m) = Some 0 \<or> js_ne (team_of (wj (ec ?m))) (Some (currentPlayer g))"
    using dst j(3) by simp
  ultimately show ?thesis
    using i(1,2) j(1,2) p(2) ne' by blast
qed


lemma validateMove_True_out: "validateMove g m = Inr (out, True) \<Longrightarrow> out = []"
  by (simp add: validateMove_True_iff)

lemma accepted_iff: "accepted g s \<longleftrightarrow> validateMove g (interpretMove s) = Inr ([], True)"
proof (cases "validateMove g (interpretMove s)")
  case (Inl e)
  then show ?thesis by (simp add: accepted_def)
next
  case (Inr r)
  obtain out ok where r: "r = (out, ok)" by (cases r)
  show ?thesis
  proof (cases ok)
    case True
    with Inr r validateMove_True_out[of g "interpretMove s" out] show ?thesis
      by (simp add: accepted_def)
  next
    case False
    with Inr r show ?thesis by (simp add: accepted_def)
  qed
qed

lemma outside_beyond: "0 \<le> hi \<Longrightarrow> outside x hi = beyond x hi"
  by (cases x) (simp_all add: outside_def beyond_iff)

lemma off_board_validate:
  "off_board m \<Longrightarrow> validateMove g m = Inl (Error (illegalMoveMessage m))"
  by (auto simp: off_board_def validateMove_def outside_beyond)

lemma ten_rows_row:
  assumes "ten_rows L" "0 \<le> i" "i \<le> 9"
  shows "\<exists>w. L i = Some w"
proof -
  from assms(2,3) have "nat i \<in> set [0..<10]" by auto
  with assms(1) have "L (int (nat i)) \<noteq> None"
    unfolding ten_rows_def list_all_iff by blast
  with assms(2) show ?thesis by auto
qed

lemma inside_not_beyond: "0 \<le> hi \<Longrightarrow> inside x hi \<Longrightarrow> \<not> beyond x hi"
  by (cases x) (auto simp: inside_def beyond_iff)

lemma makeMove_player:
  assumes "currentPlayer g = 1 \<or> currentPlayer g = 2"
  shows "currentPlayer (after (makeMove g s)) =
           (if accepted g s then 3 - currentPlayer g else currentPlayer g)"
proof (cases "accepted g s")
  case True
  then have "validateMove g (interpretMove s) = Inr ([], True)" by (simp add: accepted_iff)
  from makeMove_accepted[OF this]
  have "currentPlayer (after (makeMove g s)) = getNextPlayer g" by auto
  with True assms show ?thesis by (auto simp: getNextPlayer_def)
next
  case False
  then have "after (makeMove g s) = g"
    by (auto simp: accepted_def makeMove_def split: sum.splits)
  with False show ?thesis by simp
qed

lemma play_player:
  assumes "currentPlayer g = 1 \<or> currentPlayer g = 2"
  shows "currentPlayer (play g ss) =
           (if even (accepted_count g ss) then currentPlayer g else 3 - currentPlayer g)"
  using assms
proof (induction ss arbitrary: g)
  case Nil
  then show ?case by simp
next
  case (Cons s ss)
  let ?g = "after (makeMove g s)"
  have step: "currentPlayer ?g = (if accepted g s then 3 - currentPlayer g else currentPlayer g)"
    using makeMove_player[OF Cons.prems] .
  then have "currentPlayer ?g = 1 \<or> currentPlayer ?g = 2"
    using Cons.prems by auto
  from Cons.IH[OF this] step show ?case
    by auto
qed

lemma validateMove_winner: "validateMove (g\<lparr> winner := w \<rparr>) m = validateMove g m"
  by (simp add: validateMove_def split: sum.splits)

lemma applyMove_winner:
  "applyMove (g\<lparr> winner := w \<rparr>) s m out =
     (applyMove g s m out)\<lparr> after := (after (applyMove g s m out))\<lparr> winner := w \<rparr> \<rparr>"
  by (simp add: applyMove_def Let_def getNextPlayer_def split: sum.splits)

lemma digit_facts:
  assumes "is_digit c"
  shows "\<not> isWhiteSpace c" "c \<noteq> CHR ''-''" "c \<noteq> CHR ''+''" "c \<noteq> CHR ''x''" "c \<noteq> CHR ''X''"
    "digit_value c = Some (nat (digit_of c))" "is_radix_digit 10 c" "0 \<le> digit_of c"
  using assms
  by (auto simp: is_digit_def isWhiteSpace_def digit_value_def digit_of_def is_radix_digit_def Let_def)

lemma parseInt_two_digits:
  assumes "is_digit a" "is_digit b"
  shows "parseInt [a, b] = Some (rank_of a b)"
  using digit_facts[OF assms(1)] digit_facts[OF assms(2)]
  by (simp add: parseInt_def digits_value_def rank_of_def Let_def)

lemma upper_char_upper: "is_upper c \<Longrightarrow> upper_char c = c"
  by (simp add: is_upper_def upper_char_def Let_def)

lemma upper_char_lower: "is_upper c \<Longrightarrow> upper_char (lower_of c) = c"
  by (simp add: is_upper_def upper_char_def lower_of_def Let_def)

lemma interpretMove_empty: "sr (interpretMove []) = None"
  by code_simp

lemma recallMove_after_makeMove:
  assumes acc: "validateMove g (interpretMove s) = Inr (out, True)"
    and pl: "currentPlayer g \<noteq> 0"
  shows "recallMove (after (makeMove g s)) =
           \<lparr> thrown = None, console = [],
             after = g\<lparr> lastMove := [], lastCaptured := Some 0 \<rparr> \<rparr>"
proof -
  let ?m = "interpretMove s"
  from makeMove_accepted[OF acc] obtain i j wi wj p where
    i: "sr ?m = Some i" and j: "er ?m = Some j" and
    wi: "layout g i = Some wi" and wj: "layout g j = Some wj" and
    p: "wi (sc ?m) = Some p" "p div 10 = currentPlayer g" and
    dst: "wj (ec ?m) = Some 0 \<or> js_ne (team_of (wj (ec ?m))) (Some (currentPlayer g))" and
    ne: "i \<noteq> j \<or> js_ne (sc ?m) (ec ?m)" and
    mk: "makeMove g s =
             \<lparr> thrown = None, console = [],
               after = g\<lparr> layout :=
                          (let L2 = (layout g)(j := Some (wj(ec ?m := Some p)))
                           in L2(i := Some ((the (L2 i))(sc ?m := Some 0)))),
                        lastCaptured := wj (ec ?m),
                        lastMove := s,
                        currentPlayer := getNextPlayer g \<rparr> \<rparr>"
    by blast
  have s: "s \<noteq> []" using i interpretMove_empty by auto
  have keys: "i \<noteq> j \<or> sc ?m \<noteq> ec ?m"
  proof (rule ccontr)
    assume "\<not> (i \<noteq> j \<or> sc ?m \<noteq> ec ?m)"
    then have e: "i = j" "sc ?m = ec ?m" by auto
    with wi wj have "wj = wi" by simp
    with p e have d: "wj (ec ?m) = Some p" by simp
    have "p \<noteq> 0" using p(2) pl by auto
    with dst d p(2) show False by (simp add: js_ne_def team_of_def)
  qed
  have np: "getNextPlayer g = 1 \<and> currentPlayer g = 2 \<or>
            getNextPlayer g \<noteq> 1 \<and> getNextPlayer g - 1 = currentPlayer g"
    using pl by (auto simp: getNextPlayer_def)
  show ?thesis
  proof (cases "i = j")
    case True
    with wi wj have w: "wj = wi" by simp
    from True keys have k: "sc ?m \<noteq> ec ?m" by simp
    have L: "(layout g)(i := Some (wi(ec ?m := Some p, sc ?m := Some p, ec ?m := wi (ec ?m)))) = layout g"
      using wi p(1) k by (auto simp: fun_eq_iff)
    show ?thesis
      unfolding mk using s i j True w k p(1) np L
      by (auto intro!: outcome.equality game.equality
          simp: recallMove_def read_cell_def write_cell_def Let_def)
  next
    case False
    have L: "(layout g)(j := Some (wj(ec ?m := Some p)), i := Some (wi(sc ?m := Some 0)),
                i := Some (wi(sc ?m := Some 0, sc ?m := Some p)),
                j := Some (wj(ec ?m := Some p, ec ?m := wj (ec ?m)))) = layout g"
      using wi wj p(1) False by (auto simp: fun_eq_iff)
    show ?thesis
      unfolding mk using s i j False wi wj p(1) np L
      by (auto intro!: outcome.equality game.equality
          simp: recallMove_def read_cell_def write_cell_def Let_def)
  qed
qed



subsection \<open>The dump, square by square\<close>

lemma string_of_nat_digit: "n < 10 \<Longrightarrow> string_of_nat n = [char_of (48 + n)]"
  by (simp add: string_of_nat.simps)

lemma charAt_types:
  assumes "0 \<le> t" "t \<le> 8"
  shows "charAt types (Some t) = [type_letter t]"
proof -
  from assms have "t = 0 \<or> t = 1 \<or> t = 2 \<or> t = 3 \<or> t = 4 \<or> t = 5 \<or> t = 6 \<or> t = 7 \<or> t = 8"
    by arith
  then show ?thesis
    by (elim disjE) (simp_all add: charAt_def types_def type_letter_def)
qed

lemma square_text_encoded:
  assumes "0 \<le> v" "v div 10 \<le> 9" "v mod 10 \<le> 8"
  shows "square_text (Some v) = dump_square v"
proof -
  have t: "0 \<le> v div 10" using assms(1) by (simp add: pos_imp_zdiv_nonneg_iff)
  have r: "js_rem (Some v) 10 = Some (v mod 10)"
    using assms(1) by (cases "v = 0") (simp_all add: js_rem_def)
  have m: "0 \<le> v mod 10" by simp
  have s: "v div 10 \<noteq> 0 \<Longrightarrow> string_of_num (Some (v div 10)) = [char_of (48 + nat (v div 10))]"
    using t assms(2) by (simp add: string_of_num_def string_of_nat_digit)
  show ?thesis
    using s charAt_types[OF m assms(3)]
    by (simp add: square_text_def dump_square_def team_of_def r team_mark_def Let_def)
qed

lemma toString_cols_encoded:
  assumes "list_all (\<lambda>j. encoded_square L i j) js"
  shows "toString_cols L i js result =
           Inr (result @ concat (map (\<lambda>j. dump_square (piece_at L (int i) (int j))) js))"
  using assms
proof (induction js arbitrary: result)
  case Nil
  then show ?case by simp
next
  case (Cons j js)
  from Cons.prems obtain w v where
    w: "L (int i) = Some w" and v: "w (Some (int j)) = Some v" and
    enc: "0 \<le> v" "v div 10 \<le> 9" "v mod 10 \<le> 8"
    by (auto simp: encoded_square_def split: option.splits)
  have rest: "list_all (\<lambda>j. encoded_square L i j) js" using Cons.prems by simp
  show ?case
    using w v square_text_encoded[OF enc] Cons.IH[OF rest]
    by (simp add: read_cell_def piece_at_def)
qed

lemma rank_label:
  assumes "i < 10"
  shows "(if i = 0 then '' '' else '' 0'') @ string_of_num (Some (10 - int i)) =
         (if i = 0 then '' 10'' else [CHR '' '', CHR ''0'', char_of (48 + (10 - i))])"
proof (cases "i = 0")
  case True
  have "string_of_nat 10 = ''10''" by code_simp
  with True show ?thesis by (simp add: string_of_num_def)
next
  case False
  with assms have "nat (10 - int i) = 10 - i" "10 - i < 10" by auto
  with False show ?thesis
    using assms by (simp add: string_of_num_def string_of_nat_digit)
qed

lemma toString_rows_encoded:
  assumes "list_all (\<lambda>i. i < 10 \<and> list_all (\<lambda>j. encoded_square L i j) [0..<9]) is"
  shows "toString_rows L is result = Inr (result @ concat (map (dump_rank L) is))"
  using assms
proof (induction "is" arbitrary: result)
  case Nil
  then show ?case by simp
next
  case (Cons i "is")
  from Cons.prems have i: "i < 10" and row: "list_all (\<lambda>j. encoded_square L i j) [0..<9]"
    and rest: "list_all (\<lambda>i. i < 10 \<and> list_all (\<lambda>j. encoded_square L i j) [0..<9]) is"
    by simp_all
  show ?case
    unfolding toString_rows.simps toString_cols_encoded[OF row] rank_label[OF i]
    by (simp add: Cons.IH[OF rest] dump_rank_def del: upt_Suc)
qed

subsection \<open>The example positions, evaluated\<close>

lemma sample_encoded: "encoded_grid (layout sample_game)"
  by code_simp

lemma sample_dump:
  "dump (layout sample_game) =
     '' 10 -- -- -- 2K 2R -- -- -- --'' @ [CHR 0x0A] @
     '' 09 -- -- -- -- -- -- -- -- --'' @ [CHR 0x0A] @
     '' 08 -- -- -- -- -- -- -- -- --'' @ [CHR 0x0A] @
     '' 07 -- -- -- -- -- -- -- -- --'' @ [CHR 0x0A] @
     '' 06 -- -- -- -- -- -- -- -- --'' @ [CHR 0x0A] @
     '' 05 -- -- -- -- 1R -- -- -- --'' @ [CHR 0x0A] @
     '' 04 -- -- -- -- -- -- -- -- --'' @ [CHR 0x0A] @
     '' 03 -- 2N -- -- -- -- -- 1C --'' @ [CHR 0x0A] @
     '' 02 -- -- -- -- -- -- -- -- --'' @ [CHR 0x0A] @
     '' 01 -- -- -- -- 1K -- -- -- --'' @ [CHR 0x0A] @
     ''     A  B  C  D  E  F  G  H  I'' @ [CHR 0x0A]"
  by code_simp

lemma sample2_next: "getNextPlayer sample_game2 = 1"
  by code_simp

lemma sample2_lastMove: "lastMove sample_game2 = ''03h03b''"
  by code_simp

lemma sample2_recall_returns: "thrown (recallMove sample_game2) = None"
  by code_simp

lemma sample2_rook_step: "validateMove sample_game2 (interpretMove ''10e09e'') = Inr ([], True)"
  by code_simp

lemma sample2_player: "currentPlayer sample_game2 = 2"
  by code_simp

lemma sample_ten_rows: "ten_rows (layout sample_game)"
  by code_simp

lemma sample_off_board: "off_board (interpretMove ''11a01a'')"
  by code_simp

lemma sample_off_board_message:
  "illegalMoveMessage (interpretMove ''11a01a'') =
     ''Illegal Move: Array Notation (-1, 0) to (9, 0)''"
  by code_simp

lemma sample_on_board:
  "on_board (interpretMove ''10e09e'')" "on_board (interpretMove ''05e01e'')"
  "on_board (interpretMove ''05e05e'')"
  by code_simp+

lemma sample_not_own_start:
  "\<not> team_on (layout sample_game) (sr (interpretMove ''10e09e'')) (sc (interpretMove ''10e09e''))
       (currentPlayer sample_game)"
  by code_simp

lemma sample_own_end:
  "team_on (layout sample_game) (er (interpretMove ''05e01e'')) (ec (interpretMove ''05e01e''))
     (currentPlayer sample_game) \<and>
   square (layout sample_game) (er (interpretMove ''05e01e'')) (ec (interpretMove ''05e01e''))
     \<noteq> Some 0"
  by code_simp

lemma sample_same_square:
  "sr (interpretMove ''05e05e'') = er (interpretMove ''05e05e'') \<and>
   sc (interpretMove ''05e05e'') = ec (interpretMove ''05e05e'')"
  by code_simp

lemma sample_player: "currentPlayer sample_game = 1"
  by code_simp

lemma sample_accepted: "accepted sample_game ''03h03b''"
  by code_simp

lemma sample_not_accepted: "\<not> accepted sample_game ''10e09e''"
  by code_simp

lemma sample_run_count: "accepted_count sample_game [''10e09e'', ''03h03b'', ''10e09e''] = 2"
  by code_simp

lemma sample_capture_player: "currentPlayer (after (makeMove sample_game ''03h03b'')) = 2"
  by code_simp

lemma sample_fresh: "sample_game\<lparr> lastMove := [], lastCaptured := Some 0 \<rparr> = sample_game"
  by (simp add: sample_game_def)



lemma sample_notation:
  "is_digit CHR ''0''" "is_digit CHR ''3''" "is_upper CHR ''H''" "is_upper CHR ''E''"
  "lower_of CHR ''H'' = CHR ''h''" "lower_of CHR ''E'' = CHR ''e''"
  "rank_of CHR ''0'' CHR ''3'' = 3" "file_of CHR ''H'' = 7" "file_of CHR ''E'' = 4"
  by code_simp+

section \<open>The claims\<close>




text \<open>
  \<^bold>\<open>C2.\<close> A Cannon that takes needs exactly one piece between start and end. The comment
  at the end of \<open>validateMove\<close> says so (\<open>C: end empty: nothing in between; end enemy: 1
  piece in between\<close>), and the statement after the comment is \<open>return true\<close>. In the
  example position the Cannon of team 1 on H3 takes the Horse of team 2 on B3 with no
  piece between them: the move is accepted and applied.
\<close>

theorem cannon_takes_without_screen:
  "interpretMove ''03h03b'' = \<lparr> sr = Some 7, sc = Some 7, er = Some 7, ec = Some 1 \<rparr> \<and>
   currentPlayer sample_game = 1 \<and>
   piece_at (layout sample_game) 7 7 = 13 \<and>
   piece_at (layout sample_game) 7 1 = 22 \<and>
   pieces_between (layout sample_game) (7, 7) (7, 1) = 0 \<and>
   validateMove sample_game (interpretMove ''03h03b'') = Inr ([], True) \<and>
   thrown (makeMove sample_game ''03h03b'') = None \<and>
   piece_at (layout (after (makeMove sample_game ''03h03b''))) 7 1 = 13 \<and>
   piece_at (layout (after (makeMove sample_game ''03h03b''))) 7 7 = 0"
  by code_simp

text \<open>
  \<^bold>\<open>C3.\<close> The claim is that \<open>recallMove\<close> after an accepted move restores the grid and
  \<open>currentPlayer\<close>, \<open>lastMove\<close>, \<open>lastCaptured\<close> to their values from before the move.
  \<open>recallMove\<close> clears \<open>lastMove\<close> and \<open>lastCaptured\<close>; it cannot restore what an earlier
  move had recorded there. In the position after the Cannon's capture, team 2 moves its
  Rook and the move is recalled: \<open>lastMove\<close> and \<open>lastCaptured\<close> are then empty and 0, not
  the capture's \<open>03h03b\<close> and 22.
\<close>

theorem recall_clears_history_counterexample:
  "accepted sample_game2 ''10e09e'' \<and>
   lastMove sample_game2 = ''03h03b'' \<and>
   lastCaptured sample_game2 = Some 22 \<and>
   lastMove (after (recallMove (after (makeMove sample_game2 ''10e09e'')))) = [] \<and>
   lastCaptured (after (recallMove (after (makeMove sample_game2 ''10e09e'')))) = Some 0"
  by code_simp

text \<open>
  \<^bold>\<open>C3, as it holds.\<close> After a move that \<open>makeMove\<close> accepted, with \<open>currentPlayer\<close> not 0,
  \<open>recallMove\<close> returns without a throw and the object is the one from before the
  move (grid, \<open>currentPlayer\<close> and \<open>winner\<close>), with \<open>lastMove\<close> empty and \<open>lastCaptured\<close> 0.
\<close>

theorem recall_after_accepted_move:
  assumes "accepted g s" and "currentPlayer g \<noteq> 0"
  shows "recallMove (after (makeMove g s)) =
           \<lparr> thrown = None, console = [],
             after = g\<lparr> lastMove := [], lastCaptured := Some 0 \<rparr> \<rparr>"
  using recallMove_after_makeMove[OF _ assms(2)] assms(1) by (simp add: accepted_iff)

theorem recall_after_accepted_move_witness:
  "accepted sample_game ''03h03b'' \<and> currentPlayer sample_game \<noteq> 0 \<and>
   recallMove (after (makeMove sample_game ''03h03b'')) =
     \<lparr> thrown = None, console = [], after = sample_game \<rparr>"
  using recall_after_accepted_move[of sample_game "''03h03b''"] sample_accepted sample_player
    sample_fresh
  by simp

text \<open>
  \<^bold>\<open>C4.\<close> A move string whose coordinates decode to squares of the board, on a grid that
  has its ten rows, and that fails validation because the start square does not hold a
  value of the current player's team, or the end square holds a piece of the current
  player's team, or start and end are the same square: \<open>makeMove\<close> returns without a
  throw, leaves the whole object (grid, \<open>currentPlayer\<close>, \<open>lastMove\<close>, \<open>lastCaptured\<close>,
  \<open>winner\<close>) as it was, and its last line on the console is \<open>Move not accepted.\<close>
\<close>

theorem rejected_move_changes_nothing:
  assumes board: "on_board (interpretMove s)"
    and rows: "ten_rows (layout g)"
    and fails:
      "\<not> team_on (layout g) (sr (interpretMove s)) (sc (interpretMove s)) (currentPlayer g)
       \<or> (team_on (layout g) (er (interpretMove s)) (ec (interpretMove s)) (currentPlayer g)
          \<and> square (layout g) (er (interpretMove s)) (ec (interpretMove s)) \<noteq> Some 0)
       \<or> (sr (interpretMove s) = er (interpretMove s) \<and> sc (interpretMove s) = ec (interpretMove s))"
  shows "after (makeMove g s) = g \<and> thrown (makeMove g s) = None \<and>
         last (console (makeMove g s)) = ''Move not accepted.''"
proof -
  let ?m = "interpretMove s"
  from board obtain i a j b where
    c: "sr ?m = Some i" "sc ?m = Some a" "er ?m = Some j" "ec ?m = Some b" and
    r: "0 \<le> i" "i \<le> 9" "0 \<le> j" "j \<le> 9"
    by (auto simp: on_board_def inside_def split: option.splits)
  from ten_rows_row[OF rows r(1,2)] obtain wi where wi: "layout g i = Some wi" ..
  from ten_rows_row[OF rows r(3,4)] obtain wj where wj: "layout g j = Some wj" ..
  have nb: "\<not> (beyond (sr ?m) 9 \<or> beyond (er ?m) 9 \<or> beyond (sc ?m) 8 \<or> beyond (ec ?m) 8)"
    using board by (simp add: on_board_def inside_not_beyond)
  have rs: "read_cell (layout g) (sr ?m) (sc ?m) = Inr (wi (Some a))"
    using c wi by (simp add: read_cell_def)
  have rd: "read_cell (layout g) (er ?m) (ec ?m) = Inr (wj (Some b))"
    using c wj by (simp add: read_cell_def)
  have ss: "square (layout g) (sr ?m) (sc ?m) = wi (Some a)"
    using c wi by (simp add: square_def)
  have sd: "square (layout g) (er ?m) (ec ?m) = wj (Some b)"
    using c wj by (simp add: square_def)
  have own: "js_ne (team_of (wi (Some a))) (Some (currentPlayer g)) \<longleftrightarrow>
               \<not> team_on (layout g) (sr ?m) (sc ?m) (currentPlayer g)"
    unfolding team_on_def ss by (cases "wi (Some a)") (simp_all add: js_ne_def team_of_def)
  have dst: "js_ne (team_of (wj (Some b))) (Some (currentPlayer g)) \<longleftrightarrow>
               \<not> team_on (layout g) (er ?m) (ec ?m) (currentPlayer g)"
    unfolding team_on_def sd by (cases "wj (Some b)") (simp_all add: js_ne_def team_of_def)
  have same: "(js_ne (sr ?m) (er ?m) \<or> js_ne (sc ?m) (ec ?m)) \<longleftrightarrow>
               \<not> (sr ?m = er ?m \<and> sc ?m = ec ?m)"
    using c by (simp add: js_ne_def)
  have "validateMove g ?m =
          (if \<not> team_on (layout g) (sr ?m) (sc ?m) (currentPlayer g)
           then Inr ([''You cannot move this piece.''], False)
           else if \<not> ((wj (Some b) = Some 0 \<or> \<not> team_on (layout g) (er ?m) (ec ?m) (currentPlayer g))
                        \<and> \<not> (sr ?m = er ?m \<and> sc ?m = ec ?m))
           then Inr ([''not accepted''], False)
           else Inr ([], True))"
    using nb by (simp add: validateMove_def rs rd own dst same)
  with fails sd have "\<exists>out. validateMove g ?m = Inr (out, False)"
    by auto
  then obtain out where "validateMove g ?m = Inr (out, False)" ..
  from makeMove_rejected[OF this] show ?thesis by simp
qed

theorem rejected_move_changes_nothing_witness:
  "on_board (interpretMove ''10e09e'') \<and> on_board (interpretMove ''05e01e'') \<and>
   on_board (interpretMove ''05e05e'') \<and> ten_rows (layout sample_game) \<and>
   after (makeMove sample_game ''10e09e'') = sample_game \<and>
   thrown (makeMove sample_game ''10e09e'') = None \<and>
   last (console (makeMove sample_game ''10e09e'')) = ''Move not accepted.'' \<and>
   after (makeMove sample_game ''05e01e'') = sample_game \<and>
   thrown (makeMove sample_game ''05e01e'') = None \<and>
   last (console (makeMove sample_game ''05e01e'')) = ''Move not accepted.'' \<and>
   after (makeMove sample_game ''05e05e'') = sample_game \<and>
   thrown (makeMove sample_game ''05e05e'') = None \<and>
   last (console (makeMove sample_game ''05e05e'')) = ''Move not accepted.''"
  using
    rejected_move_changes_nothing[OF sample_on_board(1) sample_ten_rows disjI1,
      OF sample_not_own_start]
    rejected_move_changes_nothing[OF sample_on_board(2) sample_ten_rows disjI2,
      OF disjI1, OF sample_own_end]
    rejected_move_changes_nothing[OF sample_on_board(3) sample_ten_rows disjI2,
      OF disjI2, OF sample_same_square]
    sample_on_board sample_ten_rows
  by simp

text \<open>
  \<^bold>\<open>C5.\<close> The claim is that once \<open>winner\<close> is set every \<open>makeMove\<close> is rejected and
  mutates nothing. \<open>makeMove\<close> and \<open>validateMove\<close> never read \<open>winner\<close>: in the example
  position with \<open>winner = 2\<close> the capture by the Cannon is accepted and applied.
\<close>

theorem moves_after_game_end_counterexample:
  "winner finished_game = 2 \<and>
   thrown (makeMove finished_game ''03h03b'') = None \<and>
   console (makeMove finished_game ''03h03b'') = [] \<and>
   piece_at (layout finished_game) 7 1 = 22 \<and>
   piece_at (layout (after (makeMove finished_game ''03h03b''))) 7 1 = 13 \<and>
   currentPlayer finished_game = 1 \<and>
   currentPlayer (after (makeMove finished_game ''03h03b'')) = 2 \<and>
   lastMove (after (makeMove finished_game ''03h03b'')) = ''03h03b'' \<and>
   lastCaptured (after (makeMove finished_game ''03h03b'')) = Some 22"
  by code_simp

text \<open>
  \<^bold>\<open>C5, as it holds.\<close> \<open>makeMove\<close> does not depend on \<open>winner\<close> and does not change it.
  Whatever value \<open>winner\<close> has, the same exception, the same console lines and the same
  object result as in a game that has not ended.
\<close>

theorem makeMove_ignores_winner:
  "thrown (makeMove (g\<lparr> winner := w \<rparr>) s) = thrown (makeMove g s) \<and>
   console (makeMove (g\<lparr> winner := w \<rparr>) s) = console (makeMove g s) \<and>
   after (makeMove (g\<lparr> winner := w \<rparr>) s) = (after (makeMove g s))\<lparr> winner := w \<rparr>"
  by (simp add: makeMove_def validateMove_winner applyMove_winner Let_def split: sum.splits prod.splits)

theorem makeMove_ignores_winner_witness:
  "currentPlayer (after (makeMove (sample_game\<lparr> winner := 2 \<rparr>) ''03h03b'')) = 2 \<and>
   winner (after (makeMove (sample_game\<lparr> winner := 2 \<rparr>) ''03h03b'')) = 2"
  using makeMove_ignores_winner[where g = sample_game and w = 2 and s = "''03h03b''"] sample_capture_player
  by simp

text \<open>
  \<^bold>\<open>C6.\<close> With \<open>currentPlayer\<close> 1 or 2, an accepted move turns 1 into 2 and 2 into 1, and
  any other attempt (a rejection or a throw) leaves \<open>currentPlayer\<close> as it is. Over a
  sequence of attempts the player to move is therefore the first one after an even
  number of accepted moves and the other one after an odd number.
\<close>

theorem players_alternate:
  assumes "currentPlayer g = 1 \<or> currentPlayer g = 2"
  shows "currentPlayer (after (makeMove g s)) =
           (if accepted g s then (if currentPlayer g = 1 then 2 else 1) else currentPlayer g) \<and>
         currentPlayer (play g ss) =
           (if even (accepted_count g ss) then currentPlayer g
            else (if currentPlayer g = 1 then 2 else 1))"
  using makeMove_player[OF assms, of s] play_player[OF assms, of ss] assms by auto

theorem players_alternate_witness:
  "currentPlayer sample_game = 1 \<and>
   accepted sample_game ''03h03b'' \<and>
   currentPlayer (after (makeMove sample_game ''03h03b'')) = 2 \<and>
   \<not> accepted sample_game ''10e09e'' \<and>
   currentPlayer (after (makeMove sample_game ''10e09e'')) = 1 \<and>
   accepted_count sample_game [''10e09e'', ''03h03b'', ''10e09e''] = 2 \<and>
   currentPlayer (play sample_game [''10e09e'', ''03h03b'', ''10e09e'']) = 1"
  using players_alternate[of sample_game "''03h03b''" "[''10e09e'', ''03h03b'', ''10e09e'']"]
    players_alternate[of sample_game "''10e09e''" "[]"] sample_accepted sample_not_accepted sample_run_count sample_player
  by (simp del: play.simps accepted_count.simps)

text \<open>
  \<^bold>\<open>C7.\<close> A move string of two digits, a letter, two digits and a letter decodes to the
  rows \<open>10 - rank\<close> and to the columns \<open>letter - 'A'\<close>, the rank being the number its two
  digits write and the letter being taken as a capital: a capital and its small letter
  give the same column.
\<close>

theorem interpretMove_rank_file:
  assumes "is_digit a" "is_digit b" "is_digit c" "is_digit d"
    and "is_upper X" "is_upper Y"
    and "x = X \<or> x = lower_of X" "y = Y \<or> y = lower_of Y"
  shows "interpretMove [a, b, x, c, d, y] =
           \<lparr> sr = Some (10 - rank_of a b), sc = Some (file_of X),
             er = Some (10 - rank_of c d), ec = Some (file_of Y) \<rparr>"
proof -
  have x: "upper_char x = X" using assms(5,7) upper_char_upper upper_char_lower by auto
  have y: "upper_char y = Y" using assms(6,8) upper_char_upper upper_char_lower by auto
  show ?thesis
    using parseInt_two_digits[OF assms(1,2)] parseInt_two_digits[OF assms(3,4)] x y
    by (simp add: interpretMove_def substring_def toUpperCase_def charCodeAt_def
        js_rminus_def js_minus_def file_of_def)
qed


theorem interpretMove_rank_file_witness:
  "is_digit CHR ''0'' \<and> is_digit CHR ''3'' \<and> is_upper CHR ''H'' \<and> is_upper CHR ''E'' \<and>
   interpretMove ''03h03E'' = \<lparr> sr = Some 7, sc = Some 7, er = Some 7, ec = Some 4 \<rparr> \<and>
   interpretMove ''03H03e'' = \<lparr> sr = Some 7, sc = Some 7, er = Some 7, ec = Some 4 \<rparr>"
  using
    interpretMove_rank_file[of "CHR ''0''" "CHR ''3''" "CHR ''0''" "CHR ''3''"
      "CHR ''H''" "CHR ''E''" "CHR ''h''" "CHR ''E''"]
    interpretMove_rank_file[of "CHR ''0''" "CHR ''3''" "CHR ''0''" "CHR ''3''"
      "CHR ''H''" "CHR ''E''" "CHR ''H''" "CHR ''e''"]
    sample_notation
  by simp

text \<open>
  \<^bold>\<open>C8.\<close> The claim is that a move string whose coordinates decode outside the rows 0 to
  9 or the columns 0 to 8 is rejected without mutation and that the failure is reported
  as a typed result at the call boundary, not as a fatal error. For a coordinate that is
  a number outside the board, \<open>validateMove\<close> throws an \<open>Error\<close> of the generic class
  and \<open>makeMove\<close> does not catch it: the call \<open>makeMove("11a01a")\<close> is left by that
  exception and returns nothing. A coordinate that decodes to \<open>NaN\<close> passes the test of
  \<open>validateMove\<close>: \<open>03h03\<close> has no sixth character, its end column is \<open>NaN\<close>, and the move
  is accepted and takes the Cannon off H3.
\<close>

theorem out_of_range_report_counterexample:
  "off_board (interpretMove ''11a01a'') \<and>
   thrown (makeMove sample_game ''11a01a'') =
     Some (Error ''Illegal Move: Array Notation (-1, 0) to (9, 0)'') \<and>
   interpretMove ''03h03'' = \<lparr> sr = Some 7, sc = Some 7, er = Some 7, ec = None \<rparr> \<and>
   accepted sample_game ''03h03'' \<and>
   thrown (makeMove sample_game ''03h03'') = None \<and>
   console (makeMove sample_game ''03h03'') = [] \<and>
   piece_at (layout sample_game) 7 7 = 13 \<and>
   piece_at (layout (after (makeMove sample_game ''03h03''))) 7 7 = 0 \<and>
   lastMove (after (makeMove sample_game ''03h03'')) = ''03h03'' \<and>
   lastCaptured (after (makeMove sample_game ''03h03'')) = None \<and>
   currentPlayer (after (makeMove sample_game ''03h03'')) = 2"
  by code_simp

text \<open>
  \<^bold>\<open>C8, as it holds.\<close> A move string of which a coordinate decodes to a number outside the
  rows 0 to 9 or the columns 0 to 8: \<open>validateMove\<close> throws an \<open>Error\<close> of the generic
  class, whose message prints the four coordinates, before anything is assigned;
  \<open>makeMove\<close> does not catch it, so the call ends with that exception, with nothing on
  the console and the object as it was. The ordinary rejection of C4 returns instead,
  with \<open>Move not accepted.\<close> on the console.
\<close>

theorem off_board_move_throws:
  assumes "off_board (interpretMove s)"
  shows "validateMove g (interpretMove s) = Inl (Error (illegalMoveMessage (interpretMove s))) \<and>
         makeMove g s =
           \<lparr> thrown = Some (Error (illegalMoveMessage (interpretMove s))), console = [],
             after = g \<rparr>"
  using makeMove_threw[OF off_board_validate[OF assms]] off_board_validate[OF assms]
  by simp

theorem off_board_move_throws_witness:
  "off_board (interpretMove ''11a01a'') \<and>
   validateMove sample_game (interpretMove ''11a01a'') =
     Inl (Error ''Illegal Move: Array Notation (-1, 0) to (9, 0)'') \<and>
   makeMove sample_game ''11a01a'' =
     \<lparr> thrown = Some (Error ''Illegal Move: Array Notation (-1, 0) to (9, 0)''),
       console = [], after = sample_game \<rparr>"
  using off_board_move_throws[OF sample_off_board, of sample_game]
    sample_off_board sample_off_board_message
  by simp

text \<open>
  \<^bold>\<open>C9.\<close> \<open>toString\<close> is a function of the grid alone. On a 10 by 9 grid of encodings it
  returns the ten ranks from 10 down to 1, each on a line of its own with its nine
  squares from file A to file I, followed by the line of the file letters A to I. A
  square shows the digit of its team followed by the letter of its type
  (\<open>R N C G E P K S\<close> for the types 1 to 8); where the team is 0 the digit is replaced by
  \<open>-\<close>, so that the empty square 0 shows as \<open>--\<close>.
\<close>

theorem toString_is_dump:
  assumes "encoded_grid (layout g)"
  shows "toString g = Inr (dump (layout g))"
proof -
  have "list_all (\<lambda>i. i < 10 \<and> list_all (\<lambda>j. encoded_square (layout g) i j) [0..<9]) [0..<10]"
    using assms unfolding encoded_grid_def list_all_iff by simp
  from toString_rows_encoded[OF this, of "[]"]
  show ?thesis by (simp add: toString_def dump_def del: upt_Suc)
qed

theorem toString_is_dump_witness:
  "encoded_grid (layout sample_game) \<and>
   toString sample_game =
     Inr ('' 10 -- -- -- 2K 2R -- -- -- --'' @ [CHR 0x0A] @
          '' 09 -- -- -- -- -- -- -- -- --'' @ [CHR 0x0A] @
          '' 08 -- -- -- -- -- -- -- -- --'' @ [CHR 0x0A] @
          '' 07 -- -- -- -- -- -- -- -- --'' @ [CHR 0x0A] @
          '' 06 -- -- -- -- -- -- -- -- --'' @ [CHR 0x0A] @
          '' 05 -- -- -- -- 1R -- -- -- --'' @ [CHR 0x0A] @
          '' 04 -- -- -- -- -- -- -- -- --'' @ [CHR 0x0A] @
          '' 03 -- 2N -- -- -- -- -- 1C --'' @ [CHR 0x0A] @
          '' 02 -- -- -- -- -- -- -- -- --'' @ [CHR 0x0A] @
          '' 01 -- -- -- -- 1K -- -- -- --'' @ [CHR 0x0A] @
          ''     A  B  C  D  E  F  G  H  I'' @ [CHR 0x0A])"
  using toString_is_dump[OF sample_encoded] sample_encoded sample_dump
  by simp

text \<open>
  \<^bold>\<open>C10.\<close> \<open>getNextPlayer\<close> returns 1 when \<open>currentPlayer\<close> is 2 and \<open>currentPlayer + 1\<close>
  otherwise; a \<open>recallMove\<close> that undoes a move sets \<open>currentPlayer\<close> to 2 when it is 1 and
  to \<open>currentPlayer - 1\<close> otherwise. So from player 1 or 2 the next player is again 1 or 2,
  and a move of player 2 that is accepted hands the turn to player 1.
\<close>

theorem turn_cycle:
  "getNextPlayer g = (if currentPlayer g = 2 then 1 else currentPlayer g + 1) \<and>
   (lastMove g \<noteq> [] \<and> thrown (recallMove g) = None \<longrightarrow>
      currentPlayer (after (recallMove g)) =
        (if currentPlayer g = 1 then 2 else currentPlayer g - 1)) \<and>
   (currentPlayer g \<in> {1, 2} \<longrightarrow> getNextPlayer g \<in> {1, 2}) \<and>
   (currentPlayer g = 2 \<and> validateMove g (interpretMove s) = Inr (out, True) \<longrightarrow>
      currentPlayer (after (makeMove g s)) = 1)"
proof (intro conjI impI)
  show "getNextPlayer g = (if currentPlayer g = 2 then 1 else currentPlayer g + 1)"
    by (simp add: getNextPlayer_def)
next
  assume "lastMove g \<noteq> [] \<and> thrown (recallMove g) = None"
  then show "currentPlayer (after (recallMove g)) =
        (if currentPlayer g = 1 then 2 else currentPlayer g - 1)"
    by (auto simp: recallMove_def Let_def split: sum.splits)
next
  assume "currentPlayer g \<in> {1, 2}"
  then show "getNextPlayer g \<in> {1, 2}"
    by (auto simp: getNextPlayer_def)
next
  assume a: "currentPlayer g = 2 \<and> validateMove g (interpretMove s) = Inr (out, True)"
  from makeMove_accepted[of g s out] a
  have "currentPlayer (after (makeMove g s)) = getNextPlayer g" by auto
  with a show "currentPlayer (after (makeMove g s)) = 1"
    by (simp add: getNextPlayer_def)
qed

theorem turn_cycle_witness:
  "getNextPlayer sample_game2 = 1 \<and>
   lastMove sample_game2 \<noteq> [] \<and> thrown (recallMove sample_game2) = None \<and>
   currentPlayer (after (recallMove sample_game2)) = 1 \<and>
   currentPlayer sample_game2 = 2 \<and>
   validateMove sample_game2 (interpretMove ''10e09e'') = Inr ([], True) \<and>
   currentPlayer (after (makeMove sample_game2 ''10e09e'')) = 1"
  using turn_cycle[of sample_game2 "''10e09e''" "[]"]
    sample2_next sample2_lastMove sample2_recall_returns sample2_rook_step sample2_player
  by simp

end
